theory Spec2Isabelle
  imports Complex_Main "HOL-Library.Word"
begin

section \<open>The request-to-inference layer of glm_image_ui.py\<close>

text \<open>
  The source is one Python module: a global model handle \<open>pipe\<close>, two generation
  functions (\<open>text_to_image\<close>, \<open>image_to_image\<close>), the encoder \<open>image_to_base64\<close>
  and two FastAPI endpoints. The embedding keeps that structure.

  \<^item> A Python \<open>str\<close> is a sequence of Unicode code points: \<open>pystr\<close> is a list of
    naturals, and \<open>lit\<close> embeds the ASCII literals of the source.
  \<^item> A raised exception is a value \<open>Inl e\<close> of a sum type. \<open>exn\<close> stands for the
    instances of Python's class \<open>Exception\<close>, which is what the \<open>except Exception\<close>
    clauses of the source catch; \<open>HTTPException\<close> is the one subclass the source
    tells apart.
  \<^item> The libraries are parameters, collected in the record \<open>env\<close>: the loaded
    pipeline (or \<open>None\<close> while the global \<open>pipe\<close> is still \<open>None\<close>),
    \<open>torch.Generator\<close> and its \<open>manual_seed\<close>, PIL's \<open>Image.open\<close>, \<open>convert\<close> and
    \<open>save\<close>, and \<open>UploadFile.read\<close>. Each of them may raise. Quantifying over \<open>env\<close>
    quantifies over every behaviour of the libraries.
  \<^item> \<open>str\<close> of an \<open>HTTPException\<close> is \<open>f"{status_code}: {detail}"\<close> in the Starlette
    versions that define \<open>__str__\<close> for it and the empty string in those that do
    not; a flag of \<open>env\<close> says which.
  \<^item> \<open>print\<close> writes to standard output and raises \<open>UnicodeEncodeError\<close> on a
    text with a code point that the stream cannot encode. Which code points these are
    is a parameter of \<open>env\<close>, but ASCII is always encodable. No other failure of
    \<open>print\<close> is modelled.
  \<^item> A Python \<open>float\<close> is a rational, negative zero, an infinity or NaN.
  \<^item> Every function that may call the pipeline returns, next to its result, the list
    of the calls it made, each with the keyword arguments it passed.
\<close>

subsection \<open>Strings\<close>

type_synonym pystr = "nat list"

type_synonym byte = "8 word"

definition lit :: "string \<Rightarrow> pystr" where
  "lit s = map of_char s"

definition isspace :: "nat \<Rightarrow> bool" where
  \<comment> \<open>the code points that CPython's \<open>str.strip()\<close> removes (\<open>str.isspace\<close>)\<close>
  "isspace c \<longleftrightarrow>
     (0x09 \<le> c \<and> c \<le> 0x0D) \<or> (0x1C \<le> c \<and> c \<le> 0x20) \<or> c = 0x85 \<or> c = 0xA0 \<or>
     c = 0x1680 \<or> (0x2000 \<le> c \<and> c \<le> 0x200A) \<or> c = 0x2028 \<or> c = 0x2029 \<or>
     c = 0x202F \<or> c = 0x205F \<or> c = 0x3000"

definition strip :: "pystr \<Rightarrow> pystr" where
  "strip s = rev (dropWhile isspace (rev (dropWhile isspace s)))"

fun str_nat :: "nat \<Rightarrow> pystr" where
  \<comment> \<open>\<open>str\<close> of a non-negative \<open>int\<close>: its decimal digits\<close>
  "str_nat n = (if n < 10 then [48 + n] else str_nat (n div 10) @ [48 + n mod 10])"

declare str_nat.simps [simp del]

definition str_int :: "int \<Rightarrow> pystr" where
  "str_int i = (if i < 0 then 45 # str_nat (nat (- i)) else str_nat (nat i))"

subsection \<open>Floats\<close>

datatype pyfloat = Float rat | NegZero | PosInf | NegInf | NaN

subsection \<open>Exceptions\<close>

datatype exn =
    HTTPException (status_code: int) (detail: pystr)
  | ValueError pystr
  | IndexError pystr
  | OtherException pystr  \<comment> \<open>any other \<open>Exception\<close> a library raises, with its \<open>str\<close>\<close>

subsection \<open>The pipeline call and the environment\<close>

record ('i, 'g) pipe_call =
  arg_prompt :: pystr
  arg_image :: "'i list option"  \<comment> \<open>\<open>None\<close>: the keyword \<open>image\<close> is not passed\<close>
  arg_height :: int
  arg_width :: int
  arg_num_inference_steps :: int
  arg_guidance_scale :: pyfloat
  arg_generator :: "'g option"

record ('f, 'i, 'g) env =
  pipe :: "(('i, 'g) pipe_call \<Rightarrow> exn + 'i list) option"
    \<comment> \<open>the global \<open>pipe\<close>; a call returns \<open>result.images\<close> or raises\<close>
  torch_Generator :: "string \<Rightarrow> exn + 'g"  \<comment> \<open>\<open>torch.Generator(device=d)\<close>\<close>
  manual_seed :: "'g \<Rightarrow> int \<Rightarrow> exn + 'g"  \<comment> \<open>\<open>g.manual_seed(seed)\<close>, which returns \<open>g\<close>\<close>
  http_exception_has_str :: bool  \<comment> \<open>whether \<open>HTTPException\<close> defines \<open>__str__\<close>\<close>
  stdout_encodes :: "nat \<Rightarrow> bool"  \<comment> \<open>the code points the encoding of stdout has\<close>
  stdout_error_str :: "pystr \<Rightarrow> pystr"  \<comment> \<open>\<open>str\<close> of the \<open>UnicodeEncodeError\<close> for a text\<close>
  file_read :: "'f \<Rightarrow> exn + byte list"
  image_open :: "byte list \<Rightarrow> exn + 'i"
  image_convert :: "'i \<Rightarrow> string \<Rightarrow> exn + 'i"
  image_save :: "'i \<Rightarrow> string \<Rightarrow> exn + byte list"

type_synonym ('a, 'i, 'g) traced = "(exn + 'a) \<times> ('i, 'g) pipe_call list"
  \<comment> \<open>a result or a raised exception, with the calls made to the pipeline\<close>


definition http_exception_str :: "('f, 'i, 'g) env \<Rightarrow> int \<Rightarrow> pystr \<Rightarrow> pystr" where
  \<comment> \<open>\<open>str(e)\<close> for \<open>e = HTTPException(status_code=st, detail=d)\<close>\<close>
  "http_exception_str env st d =
     (if http_exception_has_str env then str_int st @ lit '': '' @ d else [])"

definition str_exn :: "('f, 'i, 'g) env \<Rightarrow> exn \<Rightarrow> pystr" where
  "str_exn env e =
     (case e of
        HTTPException s d \<Rightarrow> http_exception_str env s d
      | ValueError m \<Rightarrow> m
      | IndexError m \<Rightarrow> m
      | OtherException m \<Rightarrow> m)"

definition encodable :: "('f, 'i, 'g) env \<Rightarrow> nat \<Rightarrow> bool" where
  \<comment> \<open>standard output can encode the code point\<close>
  "encodable env c \<longleftrightarrow> c < 128 \<or> stdout_encodes env c"

definition print :: "('f, 'i, 'g) env \<Rightarrow> pystr \<Rightarrow> exn + unit" where
  \<comment> \<open>\<open>print(msg)\<close>: returns \<open>None\<close> or raises \<open>UnicodeEncodeError\<close>\<close>
  "print env msg =
     (if list_all (encodable env) msg then Inr ()
      else Inl (OtherException (stdout_error_str env msg)))"

subsection \<open>The generation functions\<close>

definition seed_generator :: "('f, 'i, 'g) env \<Rightarrow> int \<Rightarrow> exn + 'g option" where
  \<comment> \<open>the expression both functions assign to \<open>generator\<close>:
      \<open>torch.Generator(device="cuda").manual_seed(seed) if seed >= 0 else None\<close>\<close>
  "seed_generator env seed =
     (if seed \<ge> 0 then
        (case torch_Generator env ''cuda'' of
           Inl e \<Rightarrow> Inl e
         | Inr g \<Rightarrow>
             (case manual_seed env g seed of
                Inl e \<Rightarrow> Inl e
              | Inr seeded \<Rightarrow> Inr (Some seeded)))
      else Inr None)"

definition text_to_image_try ::
  "('f, 'i, 'g) env \<Rightarrow> pystr \<Rightarrow> int \<Rightarrow> int \<Rightarrow> int \<Rightarrow> pyfloat \<Rightarrow> int \<Rightarrow> ('i, 'i, 'g) traced"
where
  \<comment> \<open>the body of the \<open>try\<close> block\<close>
  "text_to_image_try env prompt height width num_inference_steps guidance_scale seed =
     (if prompt = [] \<or> strip prompt = [] then
        (Inl (ValueError (lit ''Please enter a prompt'')), [])
      else case pipe env of
        None \<Rightarrow>
          (Inl (HTTPException 503
             (lit ''Model is not loaded yet. Please wait for the model to finish loading.'')), [])
      | Some p \<Rightarrow>
          (case seed_generator env seed of
             Inl e \<Rightarrow> (Inl e, [])
           | Inr generator \<Rightarrow>
               (case print env (lit ''Generating image with prompt: '' @ prompt) of
                  Inl e \<Rightarrow> (Inl e, [])
                | Inr _ \<Rightarrow>
                    (let c = \<lparr>arg_prompt = prompt, arg_image = None, arg_height = height,
                              arg_width = width,
                              arg_num_inference_steps = num_inference_steps,
                              arg_guidance_scale = guidance_scale,
                              arg_generator = generator\<rparr>
                     in case p c of
                          Inl e \<Rightarrow> (Inl e, [c])
                        | Inr images \<Rightarrow>
                            (case images of
                               [] \<Rightarrow>
                                 (Inl (IndexError (lit ''list index out of range'')), [c])
                             | img # _ \<Rightarrow> (Inr img, [c]))))))"

definition text_to_image ::
  "('f, 'i, 'g) env \<Rightarrow> pystr \<Rightarrow> int \<Rightarrow> int \<Rightarrow> int \<Rightarrow> pyfloat \<Rightarrow> int \<Rightarrow> ('i, 'i, 'g) traced"
where
  "text_to_image env prompt height width num_inference_steps guidance_scale seed =
     (case text_to_image_try env prompt height width num_inference_steps guidance_scale seed of
        (Inl e, calls) \<Rightarrow>
          (let error_msg = lit ''Error generating image: '' @ str_exn env e
           in case print env error_msg of
                Inl raised \<Rightarrow> (Inl raised, calls)
              | Inr _ \<Rightarrow> (Inl (HTTPException 500 error_msg), calls))
      | (Inr img, calls) \<Rightarrow> (Inr img, calls))"

definition image_to_image_try ::
  "('f, 'i, 'g) env \<Rightarrow> 'i list option \<Rightarrow> pystr \<Rightarrow> int \<Rightarrow> int \<Rightarrow> int \<Rightarrow> pyfloat \<Rightarrow> int
     \<Rightarrow> ('i, 'i, 'g) traced"
where
  "image_to_image_try env images prompt height width num_inference_steps guidance_scale seed =
     (if images = None \<or> length (the images) = 0 then
        (Inl (ValueError (lit ''Please upload at least one image'')), [])
      else if prompt = [] \<or> strip prompt = [] then
        (Inl (ValueError (lit ''Please enter a prompt'')), [])
      else case pipe env of
        None \<Rightarrow>
          (Inl (HTTPException 503
             (lit ''Model is not loaded yet. Please wait for the model to finish loading.'')), [])
      | Some p \<Rightarrow>
          (case seed_generator env seed of
             Inl e \<Rightarrow> (Inl e, [])
           | Inr generator \<Rightarrow>
               (case print env
                       (lit ''Generating image with prompt: '' @ prompt @ lit '' and '' @
                        str_nat (length (the images)) @ lit '' input image(s)'') of
                  Inl e \<Rightarrow> (Inl e, [])
                | Inr _ \<Rightarrow>
                    (let c = \<lparr>arg_prompt = prompt, arg_image = images, arg_height = height,
                              arg_width = width,
                              arg_num_inference_steps = num_inference_steps,
                              arg_guidance_scale = guidance_scale,
                              arg_generator = generator\<rparr>
                     in case p c of
                          Inl e \<Rightarrow> (Inl e, [c])
                        | Inr result_images \<Rightarrow>
                            (case result_images of
                               [] \<Rightarrow>
                                 (Inl (IndexError (lit ''list index out of range'')), [c])
                             | img # _ \<Rightarrow> (Inr img, [c]))))))"

definition image_to_image ::
  "('f, 'i, 'g) env \<Rightarrow> 'i list option \<Rightarrow> pystr \<Rightarrow> int \<Rightarrow> int \<Rightarrow> int \<Rightarrow> pyfloat \<Rightarrow> int
     \<Rightarrow> ('i, 'i, 'g) traced"
where
  "image_to_image env images prompt height width num_inference_steps guidance_scale seed =
     (case image_to_image_try env images prompt height width num_inference_steps
             guidance_scale seed of
        (Inl e, calls) \<Rightarrow>
          (let error_msg = lit ''Error generating image: '' @ str_exn env e
           in case print env error_msg of
                Inl raised \<Rightarrow> (Inl raised, calls)
              | Inr _ \<Rightarrow> (Inl (HTTPException 500 error_msg), calls))
      | (Inr img, calls) \<Rightarrow> (Inr img, calls))"

subsection \<open>The result encoder\<close>

definition b64_alphabet :: string where
  "b64_alphabet = ''ABCDEFGHIJKLMNOPQRSTUVWXYZabcdefghijklmnopqrstuvwxyz0123456789+/''"

definition b64_char :: "nat \<Rightarrow> char" where
  "b64_char n = b64_alphabet ! (n mod 64)"

fun b64encode :: "byte list \<Rightarrow> string" where
  \<comment> \<open>\<open>base64.b64encode\<close> of the standard library: RFC 4648, standard alphabet, padded\<close>
  "b64encode [] = []"
| "b64encode [a] =
     (let n = unat a * 65536
      in [b64_char (n div 262144), b64_char (n div 4096), CHR ''='', CHR ''=''])"
| "b64encode [a, b] =
     (let n = unat a * 65536 + unat b * 256
      in [b64_char (n div 262144), b64_char (n div 4096), b64_char (n div 64), CHR ''=''])"
| "b64encode (a # b # c # rest) =
     (let n = unat a * 65536 + unat b * 256 + unat c
      in [b64_char (n div 262144), b64_char (n div 4096), b64_char (n div 64), b64_char n]
         @ b64encode rest)"

definition image_to_base64 :: "('f, 'i, 'g) env \<Rightarrow> 'i \<Rightarrow> exn + pystr" where
  "image_to_base64 env img =
     (case image_save env img ''PNG'' of
        Inl e \<Rightarrow> Inl e
      | Inr buffered \<Rightarrow> Inr (lit ''data:image/png;base64,'' @ lit (b64encode buffered)))"

subsection \<open>The API endpoints\<close>

record TextToImageRequest =
  req_prompt :: pystr
  req_height :: int
  req_width :: int
  req_num_inference_steps :: int
  req_guidance_scale :: pyfloat
  req_seed :: int

definition with_default :: "'a \<Rightarrow> 'a option \<Rightarrow> 'a" where
  \<comment> \<open>a declared default: it stands in when the request omits the field\<close>
  "with_default d v = (case v of None \<Rightarrow> d | Some x \<Rightarrow> x)"

definition parse_TextToImageRequest ::
  "pystr \<Rightarrow> int option \<Rightarrow> int option \<Rightarrow> int option \<Rightarrow> pyfloat option \<Rightarrow> int option
     \<Rightarrow> TextToImageRequest"
where
  \<comment> \<open>the field defaults of the pydantic model\<close>
  "parse_TextToImageRequest p h w n g s =
     \<lparr>req_prompt = p, req_height = with_default (32 * 32) h,
      req_width = with_default (36 * 32) w, req_num_inference_steps = with_default 50 n,
      req_guidance_scale = with_default (Float 1.5) g, req_seed = with_default 42 s\<rparr>"

record JSONResponse =
  json_image :: pystr
  json_status :: string

definition api_except :: "('f, 'i, 'g) env \<Rightarrow> exn \<Rightarrow> exn" where
  \<comment> \<open>\<open>except HTTPException: raise\<close>, then \<open>except Exception as e\<close>\<close>
  "api_except env e =
     (case e of
        HTTPException s d \<Rightarrow> HTTPException s d
      | _ \<Rightarrow> HTTPException 500 (str_exn env e))"

definition api_respond ::
  "('f, 'i, 'g) env \<Rightarrow> ('i, 'i, 'g) traced \<Rightarrow> (JSONResponse, 'i, 'g) traced"
where
  \<comment> \<open>the common tail of both endpoints: encode the image, build the response, and
      pass every exception through the two \<open>except\<close> clauses\<close>
  "api_respond env r =
     (case r of
        (Inl e, calls) \<Rightarrow> (Inl (api_except env e), calls)
      | (Inr img, calls) \<Rightarrow>
          (case image_to_base64 env img of
             Inl e \<Rightarrow> (Inl (api_except env e), calls)
           | Inr image_base64 \<Rightarrow>
               (Inr \<lparr>json_image = image_base64, json_status = ''success''\<rparr>, calls)))"

definition api_text_to_image ::
  "('f, 'i, 'g) env \<Rightarrow> TextToImageRequest \<Rightarrow> (JSONResponse, 'i, 'g) traced"
where
  "api_text_to_image env request =
     api_respond env
       (text_to_image env (req_prompt request) (req_height request) (req_width request)
          (req_num_inference_steps request) (req_guidance_scale request) (req_seed request))"

definition decode_file :: "('f, 'i, 'g) env \<Rightarrow> 'f \<Rightarrow> exn + 'i" where
  \<comment> \<open>the body of the loop over \<open>files\<close>\<close>
  "decode_file env file =
     (case file_read env file of
        Inl e \<Rightarrow> Inl e
      | Inr contents \<Rightarrow>
          (case image_open env contents of
             Inl e \<Rightarrow> Inl e
           | Inr opened \<Rightarrow> image_convert env opened ''RGB''))"

fun decode_files :: "('f, 'i, 'g) env \<Rightarrow> 'f list \<Rightarrow> 'i list \<Rightarrow> exn + 'i list" where
  \<comment> \<open>the loop, with \<open>pil_images\<close> as accumulator\<close>
  "decode_files env [] pil_images = Inr pil_images"
| "decode_files env (file # files) pil_images =
     (case decode_file env file of
        Inl e \<Rightarrow> Inl e
      | Inr img \<Rightarrow> decode_files env files (pil_images @ [img]))"

definition api_image_to_image ::
  "('f, 'i, 'g) env \<Rightarrow> 'f list \<Rightarrow> pystr \<Rightarrow> int \<Rightarrow> int \<Rightarrow> int \<Rightarrow> pyfloat \<Rightarrow> int
     \<Rightarrow> (JSONResponse, 'i, 'g) traced"
where
  "api_image_to_image env files prompt height width num_inference_steps guidance_scale seed =
     (case decode_files env files [] of
        Inl e \<Rightarrow> (Inl (api_except env e), [])
      | Inr pil_images \<Rightarrow>
          api_respond env
            (image_to_image env (Some pil_images) prompt height width num_inference_steps
               guidance_scale seed))"

definition form_api_image_to_image ::
  "('f, 'i, 'g) env \<Rightarrow> 'f list \<Rightarrow> pystr \<Rightarrow> int option \<Rightarrow> int option \<Rightarrow> int option \<Rightarrow> pyfloat option
     \<Rightarrow> int option \<Rightarrow> (JSONResponse, 'i, 'g) traced"
where
  \<comment> \<open>the endpoint with the \<open>Form\<close> defaults of its signature applied\<close>
  "form_api_image_to_image env files prompt h w n g s =
     api_image_to_image env files prompt (with_default 1056 h) (with_default 1024 w)
       (with_default 50 n) (with_default (Float 1.5) g) (with_default 42 s)"

subsection \<open>A sample environment\<close>

text \<open>
  A loaded pipeline that returns one four-byte image. Files and images are their bytes,
  an empty file does not decode, and a generator is the record of its device and seed,
  which cannot be seeded beyond 64 bits. Standard output is UTF-8: it encodes every
  code point but the surrogates. The functions are evaluated in this environment on
  concrete requests.
\<close>

record generator =
  device :: string
  initial_seed :: int

definition sample_env :: "(byte list, byte list, generator) env" where
  "sample_env =
     \<lparr>pipe = Some (\<lambda>c. Inr [[0x89, 0x50, 0x4E, 0x47]]),
      torch_Generator = (\<lambda>d. Inr \<lparr>device = d, initial_seed = 0\<rparr>),
      manual_seed =
        (\<lambda>g s. if s < 2 ^ 64 then Inr (g\<lparr>initial_seed := s\<rparr>)
               else Inl (OtherException (lit ''Overflow when unpacking long''))),
      http_exception_has_str = True,
      stdout_encodes = (\<lambda>c. c < 0xD800 \<or> (0xE000 \<le> c \<and> c < 0x110000)),
      stdout_error_str = (\<lambda>msg. lit ''surrogates not allowed''),
      file_read = Inr,
      image_open =
        (\<lambda>bs. if bs = [] then Inl (OtherException (lit ''cannot identify image file''))
              else Inr bs),
      image_convert = (\<lambda>i m. Inr i),
      image_save = (\<lambda>i f. Inr i)\<rparr>"

section \<open>Basic facts\<close>

lemma strip_Nil_iff: "strip p = [] \<longleftrightarrow> list_all isspace p"
proof
  assume "list_all isspace p"
  then have "dropWhile isspace p = []" by (simp add: list_all_iff)
  then show "strip p = []" by (simp only: strip_def rev.simps dropWhile.simps)
next
  assume s: "strip p = []"
  show "list_all isspace p"
  proof (rule ccontr)
    assume "\<not> list_all isspace p"
    then have ne: "dropWhile isspace p \<noteq> []" by (simp add: list_all_iff)
    then have "\<not> isspace (hd (dropWhile isspace p))" by (rule hd_dropWhile)
    moreover have "hd (dropWhile isspace p) \<in> set (rev (dropWhile isspace p))"
      using ne by simp
    ultimately have "dropWhile isspace (rev (dropWhile isspace p)) \<noteq> []"
      unfolding dropWhile_eq_Nil_conv by blast
    then show False using s unfolding strip_def by simp
  qed
qed

lemma length_b64encode: "length (b64encode bs) = 4 * ((length bs + 2) div 3)"
proof (induction bs rule: b64encode.induct)
  case (4 a b c rest)
  have "(length rest + 5) div 3 = Suc ((length rest + 2) div 3)" by arith
  with 4 show ?case by (simp add: Let_def add.commute)
qed (simp_all add: Let_def)

subsection \<open>Printing\<close>

lemma print_encodable: "list_all (encodable env) msg \<Longrightarrow> print env msg = Inr ()"
  by (simp add: print_def)

lemma print_Inr_iff: "print env msg = Inr u \<longleftrightarrow> list_all (encodable env) msg"
  by (simp add: print_def)

lemma print_Inl_iff:
  "print env msg = Inl e \<longleftrightarrow>
   \<not> list_all (encodable env) msg \<and> e = OtherException (stdout_error_str env msg)"
  by (auto simp add: print_def)

lemma encodable_ascii: "list_all (\<lambda>c. c < 128) msg \<Longrightarrow> list_all (encodable env) msg"
  by (simp add: list_all_iff encodable_def)

lemma print_ascii: "list_all (\<lambda>c. c < 128) msg \<Longrightarrow> print env msg = Inr ()"
  by (simp add: print_encodable encodable_ascii)

lemma ascii_str_nat: "list_all (\<lambda>c. c < 128) (str_nat n)"
proof (induction n rule: str_nat.induct)
  case (1 n)
  show ?case
  proof (cases "n < 10")
    case True
    then show ?thesis by (subst str_nat.simps) simp
  next
    case False
    have "n mod 10 < 10" by simp
    then have "48 + n mod 10 < 128" by linarith
    with False 1 show ?thesis by (subst str_nat.simps) simp
  qed
qed

lemma ascii_str_int: "list_all (\<lambda>c. c < 128) (str_int i)"
  by (simp add: str_int_def ascii_str_nat)

lemma ascii_http_exception_str:
  "list_all (\<lambda>c. c < 128) d \<Longrightarrow> list_all (\<lambda>c. c < 128) (http_exception_str env st d)"
  by (simp add: http_exception_str_def ascii_str_int lit_def)

lemma print_prompt_error: 
  "print env (lit ''Error generating image: '' @ lit ''Please enter a prompt'') = Inr ()"
  by (rule print_ascii) (simp add: lit_def)

lemma print_images_error:
  "print env (lit ''Error generating image: '' @ lit ''Please upload at least one image'') =
     Inr ()"
  by (rule print_ascii) (simp add: lit_def)

lemma print_not_loaded_error:
  "print env
     (lit ''Error generating image: '' @
      http_exception_str env 503
        (lit ''Model is not loaded yet. Please wait for the model to finish loading.'')) =
     Inr ()"
proof (rule print_ascii)
  have "list_all (\<lambda>c. c < 128)
          (lit ''Model is not loaded yet. Please wait for the model to finish loading.'')"
    by (simp add: lit_def)
  then have "list_all (\<lambda>c. c < 128)
          (http_exception_str env 503
             (lit ''Model is not loaded yet. Please wait for the model to finish loading.''))"
    by (rule ascii_http_exception_str)
  moreover have "list_all (\<lambda>c. c < 128) (lit ''Error generating image: '')"
    by (simp add: lit_def)
  ultimately show "list_all (\<lambda>c. c < 128)
          (lit ''Error generating image: '' @
           http_exception_str env 503
             (lit ''Model is not loaded yet. Please wait for the model to finish loading.''))"
    by simp
qed

lemma print_generating_text:
  "print env (lit ''Generating image with prompt: '' @ prompt) = Inr () \<longleftrightarrow>
   list_all (encodable env) prompt"
proof -
  have "list_all (encodable env) (lit ''Generating image with prompt: '')"
    by (rule encodable_ascii) (simp add: lit_def)
  then show ?thesis by (simp add: print_Inr_iff)
qed

lemma print_generating_text_ok:
  "list_all (encodable env) prompt \<Longrightarrow>
   print env (lit ''Generating image with prompt: '' @ prompt) = Inr ()"
  by (simp add: print_generating_text)


lemma print_generating_images:
  "print env (lit ''Generating image with prompt: '' @ prompt @ lit '' and '' @
              str_nat k @ lit '' input image(s)'') = Inr () \<longleftrightarrow>
   list_all (encodable env) prompt"
proof -
  have "list_all (encodable env) (lit ''Generating image with prompt: '')"
    and "list_all (encodable env) (lit '' and '')"
    and "list_all (encodable env) (lit '' input image(s)'')"
    by (rule encodable_ascii, simp add: lit_def)+
  moreover have "list_all (encodable env) (str_nat k)"
    by (rule encodable_ascii) (rule ascii_str_nat)
  ultimately show ?thesis by (simp add: print_Inr_iff)
qed

lemma print_generating_images_ok:
  "list_all (encodable env) prompt \<Longrightarrow>
   print env (lit ''Generating image with prompt: '' @ prompt @ lit '' and '' @
              str_nat k @ lit '' input image(s)'') = Inr ()"
  by (simp add: print_generating_images)

lemma print_generating_images_raises:
  "\<not> list_all (encodable env) prompt \<Longrightarrow>
   \<exists>e. print env (lit ''Generating image with prompt: '' @ prompt @ lit '' and '' @
              str_nat k @ lit '' input image(s)'') = Inl e"
  using print_generating_images [of env prompt k]
  by (cases "print env (lit ''Generating image with prompt: '' @ prompt @ lit '' and '' @
              str_nat k @ lit '' input image(s)'')") auto

subsection \<open>The generation functions\<close>

lemma text_to_image_blank:
  "list_all isspace p \<Longrightarrow>
   text_to_image env p h w n g s =
     (Inl (HTTPException 500 (lit ''Error generating image: '' @ lit ''Please enter a prompt'')), [])"
  by (simp add: text_to_image_def text_to_image_try_def strip_Nil_iff str_exn_def
        print_prompt_error)

lemma image_to_image_no_images:
  "images = None \<or> images = Some [] \<Longrightarrow>
   image_to_image env images p h w n g s =
     (Inl (HTTPException 500
        (lit ''Error generating image: '' @ lit ''Please upload at least one image'')), [])"
  by (auto simp add: image_to_image_def image_to_image_try_def str_exn_def
        print_images_error)

lemma image_to_image_blank:
  "list_all isspace p \<Longrightarrow>
   image_to_image env (Some (x # xs)) p h w n g s =
     (Inl (HTTPException 500 (lit ''Error generating image: '' @ lit ''Please enter a prompt'')), [])"
  by (simp add: image_to_image_def image_to_image_try_def strip_Nil_iff str_exn_def
        print_prompt_error)

lemma text_to_image_not_loaded:
  "pipe env = None \<Longrightarrow> \<not> list_all isspace prompt \<Longrightarrow>
   text_to_image env prompt h w n g s =
     (Inl (HTTPException 500
        (lit ''Error generating image: '' @
         http_exception_str env 503
           (lit ''Model is not loaded yet. Please wait for the model to finish loading.''))), [])"
  by (auto simp add: text_to_image_def text_to_image_try_def strip_Nil_iff str_exn_def
        print_not_loaded_error)

lemma image_to_image_not_loaded:
  "pipe env = None \<Longrightarrow> \<not> list_all isspace prompt \<Longrightarrow>
   image_to_image env (Some (x # xs)) prompt h w n g s =
     (Inl (HTTPException 500
        (lit ''Error generating image: '' @
         http_exception_str env 503
           (lit ''Model is not loaded yet. Please wait for the model to finish loading.''))), [])"
  by (auto simp add: image_to_image_def image_to_image_try_def strip_Nil_iff str_exn_def
        print_not_loaded_error)




lemma seed_generator_Inr:
  "seed_generator env s = Inr gen \<Longrightarrow>
   (0 \<le> s \<longrightarrow> (\<exists>g seeded. torch_Generator env ''cuda'' = Inr g
                  \<and> manual_seed env g s = Inr seeded \<and> gen = Some seeded))
   \<and> (s < 0 \<longrightarrow> gen = None)"
  by (auto simp add: seed_generator_def split: if_splits sum.splits)

lemma seed_generator_pipe_update:
  "seed_generator (env\<lparr>pipe := p\<rparr>) s = seed_generator env s"
  by (simp add: seed_generator_def split: sum.splits)

lemma text_to_image_try_calls:
  "pipe env = Some p \<Longrightarrow> \<not> list_all isspace prompt \<Longrightarrow> seed_generator env s = Inr gen \<Longrightarrow>
   list_all (encodable env) prompt \<Longrightarrow>
   snd (text_to_image_try env prompt h w n g s) =
     [\<lparr>arg_prompt = prompt, arg_image = None, arg_height = h, arg_width = w,
       arg_num_inference_steps = n, arg_guidance_scale = g, arg_generator = gen\<rparr>]"
  by (auto simp add: text_to_image_try_def strip_Nil_iff Let_def print_generating_text_ok
        split: sum.splits list.splits)

lemma image_to_image_try_calls:
  "pipe env = Some p \<Longrightarrow> \<not> list_all isspace prompt \<Longrightarrow> seed_generator env s = Inr gen \<Longrightarrow>
   list_all (encodable env) prompt \<Longrightarrow>
   snd (image_to_image_try env (Some (x # xs)) prompt h w n g s) =
     [\<lparr>arg_prompt = prompt, arg_image = Some (x # xs), arg_height = h, arg_width = w,
       arg_num_inference_steps = n, arg_guidance_scale = g, arg_generator = gen\<rparr>]"
  by (auto simp add: image_to_image_try_def strip_Nil_iff Let_def print_generating_images_ok
        split: sum.splits list.splits)

lemma snd_text_to_image:
  "snd (text_to_image env prompt h w n g s) = snd (text_to_image_try env prompt h w n g s)"
  by (simp add: text_to_image_def Let_def split: prod.splits sum.splits)

lemma snd_image_to_image:
  "snd (image_to_image env images prompt h w n g s) =
   snd (image_to_image_try env images prompt h w n g s)"
  by (simp add: image_to_image_def Let_def split: prod.splits sum.splits)

lemma text_to_image_calls:
  "pipe env = Some p \<Longrightarrow> \<not> list_all isspace prompt \<Longrightarrow> seed_generator env s = Inr gen \<Longrightarrow>
   list_all (encodable env) prompt \<Longrightarrow>
   snd (text_to_image env prompt h w n g s) =
     [\<lparr>arg_prompt = prompt, arg_image = None, arg_height = h, arg_width = w,
       arg_num_inference_steps = n, arg_guidance_scale = g, arg_generator = gen\<rparr>]"
  by (simp add: snd_text_to_image text_to_image_try_calls)

lemma image_to_image_calls:
  "pipe env = Some p \<Longrightarrow> \<not> list_all isspace prompt \<Longrightarrow> seed_generator env s = Inr gen \<Longrightarrow>
   list_all (encodable env) prompt \<Longrightarrow>
   snd (image_to_image env (Some (x # xs)) prompt h w n g s) =
     [\<lparr>arg_prompt = prompt, arg_image = Some (x # xs), arg_height = h, arg_width = w,
       arg_num_inference_steps = n, arg_guidance_scale = g, arg_generator = gen\<rparr>]"
  by (simp add: snd_image_to_image image_to_image_try_calls)



lemma image_to_image_call_image:
  "c \<in> set (snd (image_to_image env images prompt h w n g s)) \<Longrightarrow> arg_image c = images"
  by (auto simp add: snd_image_to_image image_to_image_try_def Let_def
        split: if_splits option.splits sum.splits list.splits)



subsection \<open>The endpoints\<close>

lemma with_default_Some: "with_default d (Some v) = v"
  by (simp add: with_default_def)

lemma snd_api_respond: "snd (api_respond env r) = snd r"
  by (auto simp add: api_respond_def split: prod.splits sum.splits)

lemma snd_api_text_to_image:
  "snd (api_text_to_image env r) =
   snd (text_to_image env (req_prompt r) (req_height r) (req_width r)
          (req_num_inference_steps r) (req_guidance_scale r) (req_seed r))"
  by (simp add: api_text_to_image_def snd_api_respond)

lemma snd_api_image_to_image:
  "snd (api_image_to_image env files prompt h w n g s) =
   (case decode_files env files [] of
      Inl e \<Rightarrow> []
    | Inr imgs \<Rightarrow> snd (image_to_image env (Some imgs) prompt h w n g s))"
  by (simp add: api_image_to_image_def snd_api_respond split: sum.splits)



lemma api_respond_Inr:
  "fst (api_respond env r) = Inr resp \<Longrightarrow>
   \<exists>img png. fst r = Inr img \<and> image_save env img ''PNG'' = Inr png
     \<and> json_image resp = lit ''data:image/png;base64,'' @ lit (b64encode png)
     \<and> json_status resp = ''success''"
  by (auto simp add: api_respond_def image_to_base64_def split: prod.splits sum.splits)

lemma decode_files_acc:
  "decode_files env files acc = Inr out \<Longrightarrow>
   \<exists>imgs. out = acc @ imgs \<and> map (decode_file env) files = map Inr imgs"
proof (induction files arbitrary: acc)
  case Nil
  then show ?case by simp
next
  case (Cons f fs)
  from Cons.prems obtain img where d: "decode_file env f = Inr img"
    and r: "decode_files env fs (acc @ [img]) = Inr out"
    by (auto split: sum.splits)
  from Cons.IH [OF r] obtain imgs where "out = (acc @ [img]) @ imgs"
    and "map (decode_file env) fs = map Inr imgs" by blast
  then have "out = acc @ (img # imgs) \<and> map (decode_file env) (f # fs) = map Inr (img # imgs)"
    using d by simp
  then show ?case by blast
qed

lemma decode_files_total:
  "map (decode_file env) files = map Inr imgs \<Longrightarrow> decode_files env files acc = Inr (acc @ imgs)"
  by (induction files arbitrary: acc imgs) auto

lemma decode_file_Inr:
  "decode_file env f = Inr img \<longleftrightarrow>
   (\<exists>contents opened. file_read env f = Inr contents \<and> image_open env contents = Inr opened
      \<and> image_convert env opened ''RGB'' = Inr img)"
  by (auto simp add: decode_file_def split: sum.splits)



subsection \<open>The sample environment\<close>

lemma a_cat_not_blank: "\<not> list_all isspace (lit ''a cat'')"
  by (simp add: lit_def isspace_def)


lemma a_cat_encodable: "list_all (encodable env) (lit ''a cat'')"
  by (rule encodable_ascii) (simp add: lit_def)

lemma sample_seed_generator:
  "s < 2 ^ 64 \<Longrightarrow>
   seed_generator sample_env s =
     Inr (if 0 \<le> s then Some \<lparr>device = ''cuda'', initial_seed = s\<rparr> else None)"
  by (simp add: seed_generator_def sample_env_def)

lemma sample_pipe: "pipe sample_env = Some (\<lambda>c. Inr [[0x89, 0x50, 0x4E, 0x47]])"
  by (simp add: sample_env_def)

lemma str_int_503: "str_int 503 = lit ''503''"
  by (simp add: str_int_def str_nat.simps lit_def)

lemma sample_encodable:
  "encodable sample_env c \<longleftrightarrow> c < 0xD800 \<or> (0xE000 \<le> c \<and> c < 0x110000)"
  by (auto simp add: encodable_def sample_env_def)

lemma sample_text_to_image:
  "\<not> list_all isspace prompt \<Longrightarrow> list_all (encodable sample_env) prompt \<Longrightarrow> s < 2 ^ 64 \<Longrightarrow>
   text_to_image sample_env prompt h w n g s =
     (Inr [0x89, 0x50, 0x4E, 0x47],
      [\<lparr>arg_prompt = prompt, arg_image = None, arg_height = h, arg_width = w,
        arg_num_inference_steps = n, arg_guidance_scale = g,
        arg_generator =
          (if 0 \<le> s then Some \<lparr>device = ''cuda'', initial_seed = s\<rparr> else None)\<rparr>])"
  by (auto simp add: text_to_image_def text_to_image_try_def strip_Nil_iff Let_def sample_pipe
        sample_seed_generator print_generating_text_ok)

lemma sample_image_to_image:
  "\<not> list_all isspace prompt \<Longrightarrow> list_all (encodable sample_env) prompt \<Longrightarrow> s < 2 ^ 64 \<Longrightarrow>
   image_to_image sample_env (Some (x # xs)) prompt h w n g s =
     (Inr [0x89, 0x50, 0x4E, 0x47],
      [\<lparr>arg_prompt = prompt, arg_image = Some (x # xs), arg_height = h, arg_width = w,
        arg_num_inference_steps = n, arg_guidance_scale = g,
        arg_generator =
          (if 0 \<le> s then Some \<lparr>device = ''cuda'', initial_seed = s\<rparr> else None)\<rparr>])"
  by (auto simp add: image_to_image_def image_to_image_try_def strip_Nil_iff Let_def
        sample_pipe sample_seed_generator print_generating_images_ok)

lemma sample_image_to_base64:
  "image_to_base64 sample_env [0x89, 0x50, 0x4E, 0x47] =
     Inr (lit ''data:image/png;base64,'' @ lit ''iVBORw=='')"
proof -
  have "b64encode [0x89, 0x50, 0x4E, 0x47] = ''iVBORw==''"
    by (simp add: b64_char_def b64_alphabet_def)
  then show ?thesis
    by (simp add: image_to_base64_def sample_env_def del: b64encode.simps)
qed

lemma sample_decode_files:
  "[] \<notin> set files \<Longrightarrow> decode_files sample_env files acc = Inr (acc @ files)"
  by (induction files arbitrary: acc) (auto simp add: decode_file_def sample_env_def)

section \<open>The properties of the specification\<close>

text \<open>
  C1. The specification: a valid request that arrives while the model is not loaded
  (\<open>pipe\<close> is \<open>None\<close>) is answered with status 503, which tells it apart from a
  generation failure (500). The code raises \<open>HTTPException(status_code=503)\<close> inside
  the \<open>try\<close> block whose \<open>except Exception\<close> clause catches it, so both generation
  functions answer with status 500, the 503 exception only surviving as text in the
  detail. Here for the request \<open>{"prompt": "a cat"}\<close> and for every environment with
  no pipeline.
\<close>

theorem model_not_loaded_response:
  "api_text_to_image (env\<lparr>pipe := None\<rparr>)
     (parse_TextToImageRequest (lit ''a cat'') None None None None None) =
     (Inl (HTTPException 500
        (lit ''Error generating image: '' @
         http_exception_str env 503
           (lit ''Model is not loaded yet. Please wait for the model to finish loading.''))), [])
   \<and> image_to_image (env\<lparr>pipe := None\<rparr>) (Some [img]) (lit ''a cat'') 1056 1024 50
       (Float 1.5) 42 =
     (Inl (HTTPException 500
        (lit ''Error generating image: '' @
         http_exception_str env 503
           (lit ''Model is not loaded yet. Please wait for the model to finish loading.''))), [])"
proof -
  have h: "http_exception_str (env\<lparr>pipe := None\<rparr>) = http_exception_str env"
    by (simp add: http_exception_str_def fun_eq_iff)
  have l: "pipe (env\<lparr>pipe := None\<rparr>) = None" by simp
  show ?thesis
    using text_to_image_not_loaded [OF l a_cat_not_blank]
      image_to_image_not_loaded [OF l a_cat_not_blank]
    by (simp add: api_text_to_image_def api_respond_def api_except_def
          parse_TextToImageRequest_def with_default_def h)
qed

text \<open>
  C2, as stated, fails: a request with height 0, width -32, -1 steps and guidance
  scale 0 is not rejected. The pipeline is called with exactly these values and its
  image is returned.
\<close>

theorem nonpositive_values_not_rejected:
  "api_text_to_image sample_env
     \<lparr>req_prompt = lit ''a cat'', req_height = 0, req_width = - 32,
      req_num_inference_steps = - 1, req_guidance_scale = Float 0, req_seed = 42\<rparr> =
   (Inr \<lparr>json_image = lit ''data:image/png;base64,iVBORw=='', json_status = ''success''\<rparr>,
    [\<lparr>arg_prompt = lit ''a cat'', arg_image = None, arg_height = 0, arg_width = - 32,
      arg_num_inference_steps = - 1, arg_guidance_scale = Float 0,
      arg_generator = Some \<lparr>device = ''cuda'', initial_seed = 42\<rparr>\<rparr>])"
proof -
  have "lit ''data:image/png;base64,'' @ lit ''iVBORw=='' = lit ''data:image/png;base64,iVBORw==''"
    by (simp add: lit_def)
  then show ?thesis
    by (simp add: api_text_to_image_def api_respond_def sample_image_to_base64
          sample_text_to_image [OF a_cat_not_blank a_cat_encodable])
qed

text \<open>
  C2, amended. There is no check of height, width, num_inference_steps or
  guidance_scale at all: whenever the prompt is not blank (and, for image-to-image,
  there is at least one image), the model is loaded, the generator expression does not
  raise and standard output can encode the prompt (so that printing it does not
  raise), exactly one call is made, and it carries the four values of the request
  unchanged, positive or not.
\<close>

theorem numeric_values_passed_through:
  assumes "pipe env = Some p" and "\<not> list_all isspace prompt"
    and "seed_generator env s = Inr gen" and "list_all (encodable env) prompt"
  shows "snd (text_to_image env prompt h w n g s) =
           [\<lparr>arg_prompt = prompt, arg_image = None, arg_height = h, arg_width = w,
             arg_num_inference_steps = n, arg_guidance_scale = g, arg_generator = gen\<rparr>]
       \<and> snd (image_to_image env (Some (x # xs)) prompt h w n g s) =
           [\<lparr>arg_prompt = prompt, arg_image = Some (x # xs), arg_height = h, arg_width = w,
             arg_num_inference_steps = n, arg_guidance_scale = g, arg_generator = gen\<rparr>]"
  using text_to_image_calls [OF assms] image_to_image_calls [OF assms] by simp

text \<open>
  The amended C2 at a concrete request, with a guidance scale that is not a number.
\<close>

theorem numeric_values_passed_through_witness:
  "pipe sample_env = Some (\<lambda>c. Inr [[0x89, 0x50, 0x4E, 0x47]])
   \<and> \<not> list_all isspace (lit ''a cat'')
   \<and> seed_generator sample_env 42 = Inr (Some \<lparr>device = ''cuda'', initial_seed = 42\<rparr>)
   \<and> list_all (encodable sample_env) (lit ''a cat'')
   \<and> snd (text_to_image sample_env (lit ''a cat'') 0 (- 32) 100000 NaN 42) =
        [\<lparr>arg_prompt = lit ''a cat'', arg_image = None, arg_height = 0, arg_width = - 32,
          arg_num_inference_steps = 100000, arg_guidance_scale = NaN,
          arg_generator = Some \<lparr>device = ''cuda'', initial_seed = 42\<rparr>\<rparr>]
   \<and> snd (image_to_image sample_env (Some [[1], [2]]) (lit ''a cat'') 0 (- 32) 100000 NaN 42) =
        [\<lparr>arg_prompt = lit ''a cat'', arg_image = Some [[1], [2]], arg_height = 0,
          arg_width = - 32, arg_num_inference_steps = 100000, arg_guidance_scale = NaN,
          arg_generator = Some \<lparr>device = ''cuda'', initial_seed = 42\<rparr>\<rparr>]"
proof -
  have l: "pipe sample_env = Some (\<lambda>c. Inr [[0x89, 0x50, 0x4E, 0x47]])"
    by (rule sample_pipe)
  have v: "\<not> list_all isspace (lit ''a cat'')"
    by (rule a_cat_not_blank)
  have t: "seed_generator sample_env 42 = Inr (Some \<lparr>device = ''cuda'', initial_seed = 42\<rparr>)"
    by (simp add: sample_seed_generator)
  have c: "list_all (encodable sample_env) (lit ''a cat'')"
    by (rule a_cat_encodable)
  show ?thesis
    using l v t c
      numeric_values_passed_through [OF l v t c, where h = 0 and w = "- 32" and n = 100000
        and g = NaN and x = "[1]" and xs = "[[2]]"]
    by simp
qed




text \<open>
  C4. A text-to-image request that omits every optional field has height 1024,
  width 1152, 50 steps, guidance scale 1.5 and seed 42; an image-to-image request that
  omits them runs with height 1056, width 1024, 50 steps, guidance scale 1.5 and
  seed 42.
\<close>

theorem request_defaults:
  "parse_TextToImageRequest p None None None None None =
     \<lparr>req_prompt = p, req_height = 1024, req_width = 1152, req_num_inference_steps = 50,
      req_guidance_scale = Float 1.5, req_seed = 42\<rparr>
   \<and> form_api_image_to_image env files p None None None None None =
     api_image_to_image env files p 1056 1024 50 (Float 1.5) 42"
  by (simp add: parse_TextToImageRequest_def form_api_image_to_image_def with_default_def)

text \<open>
  C5. A request of either kind whose prompt is empty or all whitespace is rejected, and
  the model is not called (the list of calls is empty). Text-to-image answers with the
  prompt's validation message; \<open>image_to_image\<close> answers with a validation message,
  the one about images when it has none and the one about the prompt otherwise. The
  image-to-image endpoint, which decodes the files first, fails in every case without
  a call.
\<close>

theorem blank_prompt_rejected:
  assumes "prompt = [] \<or> list_all isspace prompt"
  shows "api_text_to_image env (r\<lparr>req_prompt := prompt\<rparr>) =
           (Inl (HTTPException 500
              (lit ''Error generating image: '' @ lit ''Please enter a prompt'')), [])
       \<and> image_to_image env images prompt h w n g s =
           (Inl (HTTPException 500
              (lit ''Error generating image: '' @
               (if images = None \<or> images = Some []
                then lit ''Please upload at least one image''
                else lit ''Please enter a prompt''))), [])
       \<and> (\<exists>st d. api_image_to_image env files prompt h w n g s =
                    (Inl (HTTPException st d), []))"
proof -
  from assms have b: "list_all isspace prompt" by auto
  have 1: "api_text_to_image env (r\<lparr>req_prompt := prompt\<rparr>) =
           (Inl (HTTPException 500
              (lit ''Error generating image: '' @ lit ''Please enter a prompt'')), [])"
    by (simp add: api_text_to_image_def text_to_image_blank [OF b] api_respond_def
          api_except_def)
  have 2: "image_to_image env images prompt h w n g s =
           (Inl (HTTPException 500
              (lit ''Error generating image: '' @
               (if images = None \<or> images = Some []
                then lit ''Please upload at least one image''
                else lit ''Please enter a prompt''))), [])"
  proof (cases "images = None \<or> images = Some []")
    case True
    then show ?thesis by (simp add: image_to_image_no_images)
  next
    case False
    then obtain x xs where "images = Some (x # xs)"
      by (cases images) (auto simp add: neq_Nil_conv)
    then show ?thesis by (simp add: image_to_image_blank [OF b])
  qed
  have 3: "\<exists>st d. api_image_to_image env files prompt h w n g s =
                    (Inl (HTTPException st d), [])"
  proof (cases "decode_files env files []")
    case (Inl e)
    then show ?thesis
      by (cases e) (simp_all add: api_image_to_image_def api_except_def)
  next
    case (Inr imgs)
    show ?thesis
    proof (cases imgs)
      case Nil
      then show ?thesis
        using Inr
        by (simp add: api_image_to_image_def image_to_image_no_images api_respond_def
              api_except_def)
    next
      case (Cons y ys)
      then show ?thesis
        using Inr
        by (simp add: api_image_to_image_def image_to_image_blank [OF b] api_respond_def
              api_except_def)
    qed
  qed
  from 1 2 3 show ?thesis by blast
qed

text \<open>
  C5 at the prompt of two spaces.
\<close>

theorem blank_prompt_rejected_witness:
  "(lit ''  '' = [] \<or> list_all isspace (lit ''  ''))
   \<and> api_text_to_image sample_env
        (parse_TextToImageRequest (lit ''  '') None None None None None) =
           (Inl (HTTPException 500
              (lit ''Error generating image: '' @ lit ''Please enter a prompt'')), [])
   \<and> image_to_image sample_env (Some [[1]]) (lit ''  '') 1056 1024 50 (Float 1.5) 42 =
           (Inl (HTTPException 500
              (lit ''Error generating image: '' @ lit ''Please enter a prompt'')), [])
   \<and> (\<exists>st d. api_image_to_image sample_env [[1]] (lit ''  '') 1056 1024 50 (Float 1.5) 42 =
                    (Inl (HTTPException st d), []))"
proof -
  have b: "lit ''  '' = [] \<or> list_all isspace (lit ''  '')"
    by (simp add: lit_def isspace_def)
  have r: "parse_TextToImageRequest (lit ''  '') None None None None None =
           (parse_TextToImageRequest (lit ''  '') None None None None None)
             \<lparr>req_prompt := lit ''  ''\<rparr>"
    by (simp add: parse_TextToImageRequest_def)
  show ?thesis
    using b blank_prompt_rejected [OF b,
        where r = "parse_TextToImageRequest (lit ''  '') None None None None None"
        and env = sample_env and images = "Some [[1]]" and files = "[[1]]"
        and h = 1056 and w = 1024 and n = 50 and g = "Float 1.5" and s = 42]
    unfolding r [symmetric] by simp
qed

text \<open>
  C6. An image-conditioned request whose image collection is absent (\<open>None\<close>) or
  empty is rejected with the validation message, and the model is not called; so is a
  request to the endpoint with no uploaded file.
\<close>

theorem no_images_rejected:
  assumes "images = None \<or> images = Some []"
  shows "image_to_image env images prompt h w n g s =
           (Inl (HTTPException 500
              (lit ''Error generating image: '' @ lit ''Please upload at least one image'')), [])
       \<and> api_image_to_image env [] prompt h w n g s =
           (Inl (HTTPException 500
              (lit ''Error generating image: '' @ lit ''Please upload at least one image'')), [])"
  using assms
  by (simp add: api_image_to_image_def image_to_image_no_images api_respond_def api_except_def)

text \<open>
  C6 at the empty image list.
\<close>

theorem no_images_rejected_witness:
  "(Some [] = None \<or> Some [] = Some ([] :: byte list list))
   \<and> image_to_image sample_env (Some []) (lit ''a cat'') 1056 1024 50 (Float 1.5) 42 =
           (Inl (HTTPException 500
              (lit ''Error generating image: '' @ lit ''Please upload at least one image'')), [])
   \<and> api_image_to_image sample_env [] (lit ''a cat'') 1056 1024 50 (Float 1.5) 42 =
           (Inl (HTTPException 500
              (lit ''Error generating image: '' @ lit ''Please upload at least one image'')), [])"
proof -
  have e: "Some [] = None \<or> Some [] = Some ([] :: byte list list)" by simp
  show ?thesis
    using e no_images_rejected [OF e, where env = sample_env and prompt = "lit ''a cat''"
        and h = 1056 and w = 1024 and n = 50 and g = "Float 1.5" and s = 42]
    by simp
qed



text \<open>
  C8. The string the encoder returns is \<open>data:image/png;base64,\<close> followed by the
  base64 encoding of the bytes that saving the image in format PNG gives, and that is
  the \<open>image\<close> field of every successful response of both endpoints (for
  text-to-image: of the image the generation function returned).
\<close>

theorem encoded_image_format:
  "(image_to_base64 env img = Inr str \<longrightarrow>
      (\<exists>png. image_save env img ''PNG'' = Inr png
         \<and> str = lit ''data:image/png;base64,'' @ lit (b64encode png)))
   \<and> (fst (api_text_to_image env request) = Inr resp \<longrightarrow>
      (\<exists>generated png.
         fst (text_to_image env (req_prompt request) (req_height request) (req_width request)
                (req_num_inference_steps request) (req_guidance_scale request)
                (req_seed request)) = Inr generated
         \<and> image_save env generated ''PNG'' = Inr png
         \<and> json_image resp = lit ''data:image/png;base64,'' @ lit (b64encode png)))
   \<and> (fst (api_image_to_image env files prompt h w n g s) = Inr resp \<longrightarrow>
      (\<exists>generated png.
         image_save env generated ''PNG'' = Inr png
         \<and> json_image resp = lit ''data:image/png;base64,'' @ lit (b64encode png)))"
proof (intro conjI impI)
  assume "image_to_base64 env img = Inr str"
  then show "\<exists>png. image_save env img ''PNG'' = Inr png
         \<and> str = lit ''data:image/png;base64,'' @ lit (b64encode png)"
    by (auto simp add: image_to_base64_def split: sum.splits)
next
  assume "fst (api_text_to_image env request) = Inr resp"
  then show "\<exists>generated png.
         fst (text_to_image env (req_prompt request) (req_height request) (req_width request)
                (req_num_inference_steps request) (req_guidance_scale request)
                (req_seed request)) = Inr generated
         \<and> image_save env generated ''PNG'' = Inr png
         \<and> json_image resp = lit ''data:image/png;base64,'' @ lit (b64encode png)"
    unfolding api_text_to_image_def by (blast dest: api_respond_Inr)
next
  assume a: "fst (api_image_to_image env files prompt h w n g s) = Inr resp"
  show "\<exists>generated png.
         image_save env generated ''PNG'' = Inr png
         \<and> json_image resp = lit ''data:image/png;base64,'' @ lit (b64encode png)"
  proof (cases "decode_files env files []")
    case (Inl e)
    with a show ?thesis by (simp add: api_image_to_image_def)
  next
    case (Inr imgs)
    with a have "fst (api_respond env (image_to_image env (Some imgs) prompt h w n g s)) = Inr resp"
      by (simp add: api_image_to_image_def)
    then show ?thesis by (blast dest: api_respond_Inr)
  qed
qed

text \<open>
  C8 for the four-byte image of the sample environment, whose base64 encoding is
  \<open>iVBORw==\<close>.
\<close>

theorem encoded_image_format_witness:
  "image_to_base64 sample_env [0x89, 0x50, 0x4E, 0x47] =
     Inr (lit ''data:image/png;base64,'' @ lit ''iVBORw=='')
   \<and> fst (api_text_to_image sample_env
          \<lparr>req_prompt = lit ''a cat'', req_height = 1056, req_width = 1024,
           req_num_inference_steps = 50, req_guidance_scale = Float 1.5, req_seed = 42\<rparr>) =
     Inr \<lparr>json_image = lit ''data:image/png;base64,'' @ lit ''iVBORw=='',
          json_status = ''success''\<rparr>
   \<and> fst (api_image_to_image sample_env [[1]] (lit ''a cat'') 1056 1024 50 (Float 1.5) 42) =
     Inr \<lparr>json_image = lit ''data:image/png;base64,'' @ lit ''iVBORw=='',
          json_status = ''success''\<rparr>
   \<and> (\<exists>png. image_save sample_env [0x89, 0x50, 0x4E, 0x47] ''PNG'' = Inr png
         \<and> lit ''data:image/png;base64,'' @ lit ''iVBORw=='' =
           lit ''data:image/png;base64,'' @ lit (b64encode png))"
proof -
  let ?r = "\<lparr>json_image = lit ''data:image/png;base64,'' @ lit ''iVBORw=='',
          json_status = ''success''\<rparr>"
  have 1: "image_to_base64 sample_env [0x89, 0x50, 0x4E, 0x47] =
     Inr (lit ''data:image/png;base64,'' @ lit ''iVBORw=='')"
    by (rule sample_image_to_base64)
  have 2: "fst (api_text_to_image sample_env
          \<lparr>req_prompt = lit ''a cat'', req_height = 1056, req_width = 1024,
           req_num_inference_steps = 50, req_guidance_scale = Float 1.5, req_seed = 42\<rparr>) = Inr ?r"
    by (simp add: api_text_to_image_def api_respond_def 1
          sample_text_to_image [OF a_cat_not_blank a_cat_encodable])
  have d: "decode_files sample_env [[1]] [] = Inr [[1]]"
    by (simp add: decode_file_def sample_env_def)
  have 3: "fst (api_image_to_image sample_env [[1]] (lit ''a cat'') 1056 1024 50 (Float 1.5) 42) =
             Inr ?r"
    by (simp add: api_image_to_image_def d api_respond_def 1
          sample_image_to_image [OF a_cat_not_blank a_cat_encodable]
          del: decode_files.simps)
  show ?thesis
    using 1 2 3
      encoded_image_format [where env = sample_env and img = "[0x89, 0x50, 0x4E, 0x47]"
        and str = "lit ''data:image/png;base64,'' @ lit ''iVBORw==''" and resp = ?r
        and files = "[[1]]" and prompt = "lit ''a cat''"
        and h = 1056 and w = 1024 and n = 50 and g = "Float 1.5" and s = 42
        and request = "\<lparr>req_prompt = lit ''a cat'', req_height = 1056, req_width = 1024,
           req_num_inference_steps = 50, req_guidance_scale = Float 1.5, req_seed = 42\<rparr>"]
    by simp
qed

text \<open>
  C9. In a call the image-to-image endpoint makes to the model, the \<open>image\<close> argument
  is a list as long as the list of uploaded files, and its element at every position
  is the file at that position, read, opened and converted to mode RGB.
\<close>

theorem upload_order_preserved:
  assumes "c \<in> set (snd (api_image_to_image env files prompt h w n g s))"
  shows "\<exists>imgs. arg_image c = Some imgs \<and> length imgs = length files
           \<and> (\<forall>k<length files. \<exists>contents opened.
                  file_read env (files ! k) = Inr contents
                \<and> image_open env contents = Inr opened
                \<and> image_convert env opened ''RGB'' = Inr (imgs ! k))"
proof (cases "decode_files env files []")
  case (Inl e)
  with assms show ?thesis by (simp add: snd_api_image_to_image)
next
  case (Inr imgs)
  with assms have "c \<in> set (snd (image_to_image env (Some imgs) prompt h w n g s))"
    by (simp add: snd_api_image_to_image)
  then have 1: "arg_image c = Some imgs" by (rule image_to_image_call_image)
  from decode_files_acc [OF Inr] have m: "map (decode_file env) files = map Inr imgs" by simp
  then have 2: "length imgs = length files" by (metis length_map)
  have 3: "\<exists>contents opened.
                  file_read env (files ! k) = Inr contents
                \<and> image_open env contents = Inr opened
                \<and> image_convert env opened ''RGB'' = Inr (imgs ! k)" if "k < length files" for k
  proof -
    have "map (decode_file env) files ! k = map Inr imgs ! k" using m by simp
    then have "decode_file env (files ! k) = Inr (imgs ! k)" using that 2 by simp
    then show ?thesis by (simp add: decode_file_Inr)
  qed
  from 1 2 3 show ?thesis by blast
qed

text \<open>
  C9 for three uploaded files.
\<close>

theorem upload_order_preserved_witness:
  "\<lparr>arg_prompt = lit ''a cat'', arg_image = Some [[1], [2], [3]], arg_height = 1056,
     arg_width = 1024, arg_num_inference_steps = 50, arg_guidance_scale = Float 1.5,
     arg_generator = Some \<lparr>device = ''cuda'', initial_seed = 42\<rparr>\<rparr>
     \<in> set (snd (api_image_to_image sample_env [[1], [2], [3]] (lit ''a cat'') 1056 1024 50
                   (Float 1.5) 42))
   \<and> (\<exists>imgs. Some [[1], [2], [3]] = Some imgs \<and> length imgs = length [[1], [2], [3 :: byte]]
        \<and> (\<forall>k<length [[1], [2], [3 :: byte]]. \<exists>contents opened.
               file_read sample_env ([[1], [2], [3]] ! k) = Inr contents
             \<and> image_open sample_env contents = Inr opened
             \<and> image_convert sample_env opened ''RGB'' = Inr (imgs ! k)))"
proof -
  let ?c = "\<lparr>arg_prompt = lit ''a cat'', arg_image = Some [[1], [2], [3 :: byte]],
     arg_height = 1056, arg_width = 1024, arg_num_inference_steps = 50,
     arg_guidance_scale = Float 1.5,
     arg_generator = Some \<lparr>device = ''cuda'', initial_seed = 42\<rparr>\<rparr>"
  have d: "decode_files sample_env [[1], [2], [3]] [] = Inr [[1], [2], [3]]"
    by (simp add: decode_file_def sample_env_def)
  have m: "?c \<in> set (snd (api_image_to_image sample_env [[1], [2], [3]] (lit ''a cat'')
                   1056 1024 50 (Float 1.5) 42))"
    by (simp add: snd_api_image_to_image d
          sample_image_to_image [OF a_cat_not_blank a_cat_encodable]
          del: decode_files.simps)
  show ?thesis
    using m upload_order_preserved [OF m] by simp
qed

text \<open>
  C10. While the model is not loaded, text-to-image answers a blank prompt with the
  prompt's validation message and only a non-blank prompt with the not-loaded message;
  image-to-image answers an absent or empty image list with the image message whatever
  the prompt is, then a blank prompt with the prompt message, and only then reports
  the model as not loaded. So validation comes before the readiness check, and the
  image check before the prompt check.
\<close>

theorem validation_before_readiness:
  assumes "pipe env = None"
  shows "text_to_image env prompt h w n g s =
           (Inl (HTTPException 500
              (lit ''Error generating image: '' @
               (if list_all isspace prompt then lit ''Please enter a prompt''
                else http_exception_str env 503
                  (lit ''Model is not loaded yet. Please wait for the model to finish loading.'')))),
            [])
       \<and> image_to_image env images prompt h w n g s =
           (Inl (HTTPException 500
              (lit ''Error generating image: '' @
               (if images = None \<or> images = Some [] then lit ''Please upload at least one image''
                else if list_all isspace prompt then lit ''Please enter a prompt''
                else http_exception_str env 503
                  (lit ''Model is not loaded yet. Please wait for the model to finish loading.'')))),
            [])"
proof -
  have 1: "text_to_image env prompt h w n g s =
           (Inl (HTTPException 500
              (lit ''Error generating image: '' @
               (if list_all isspace prompt then lit ''Please enter a prompt''
                else http_exception_str env 503
                  (lit ''Model is not loaded yet. Please wait for the model to finish loading.'')))),
            [])"
    using assms by (simp add: text_to_image_blank text_to_image_not_loaded)
  have 2: "image_to_image env images prompt h w n g s =
           (Inl (HTTPException 500
              (lit ''Error generating image: '' @
               (if images = None \<or> images = Some [] then lit ''Please upload at least one image''
                else if list_all isspace prompt then lit ''Please enter a prompt''
                else http_exception_str env 503
                  (lit ''Model is not loaded yet. Please wait for the model to finish loading.'')))),
            [])"
  proof (cases "images = None \<or> images = Some []")
    case True
    then show ?thesis by (simp add: image_to_image_no_images)
  next
    case False
    then obtain x xs where "images = Some (x # xs)"
      by (cases images) (auto simp add: neq_Nil_conv)
    then show ?thesis
      using assms by (simp add: image_to_image_blank image_to_image_not_loaded)
  qed
  from 1 2 show ?thesis by (rule conjI)
qed

text \<open>
  C10 at a prompt of two spaces and at \<open>a cat\<close>.
\<close>

theorem validation_before_readiness_witness:
  "pipe (sample_env\<lparr>pipe := None\<rparr>) = None
   \<and> text_to_image (sample_env\<lparr>pipe := None\<rparr>) (lit ''  '') 1024 1152 50 (Float 1.5) 42 =
       (Inl (HTTPException 500
          (lit ''Error generating image: '' @ lit ''Please enter a prompt'')), [])
   \<and> image_to_image (sample_env\<lparr>pipe := None\<rparr>) (Some []) (lit ''  '') 1024 1152 50
       (Float 1.5) 42 =
       (Inl (HTTPException 500
          (lit ''Error generating image: '' @ lit ''Please upload at least one image'')), [])
   \<and> image_to_image (sample_env\<lparr>pipe := None\<rparr>) (Some [[1]]) (lit ''  '') 1024 1152 50
       (Float 1.5) 42 =
       (Inl (HTTPException 500
          (lit ''Error generating image: '' @ lit ''Please enter a prompt'')), [])
   \<and> text_to_image (sample_env\<lparr>pipe := None\<rparr>) (lit ''a cat'') 1024 1152 50 (Float 1.5) 42 =
       (Inl (HTTPException 500
          (lit ''Error generating image: '' @ lit ''503'' @ lit '': '' @
           lit ''Model is not loaded yet. Please wait for the model to finish loading.'')), [])"
proof -
  have l: "pipe (sample_env\<lparr>pipe := None\<rparr>) = None" by simp
  have b: "list_all isspace (lit ''  '')" by (simp add: lit_def isspace_def)
  have h: "http_exception_str (sample_env\<lparr>pipe := None\<rparr>) 503 d = lit ''503'' @ lit '': '' @ d"
    for d
    by (simp add: http_exception_str_def sample_env_def str_int_503)
  show ?thesis
    using l
      validation_before_readiness [OF l, where prompt = "lit ''  ''" and images = "Some []"
        and h = 1024 and w = 1152 and n = 50 and g = "Float 1.5" and s = 42]
      validation_before_readiness [OF l, where prompt = "lit ''  ''" and images = "Some [[1]]"
        and h = 1024 and w = 1152 and n = 50 and g = "Float 1.5" and s = 42]
      validation_before_readiness [OF l, where prompt = "lit ''a cat''" and images = "Some [[1]]"
        and h = 1024 and w = 1152 and n = 50 and g = "Float 1.5" and s = 42]
    by (simp add: b a_cat_not_blank h)
qed

end
